theory Spec2Isabelle
  imports Complex_Main
begin

section \<open>Numeric values of the data frame\<close>

text \<open>
  The program computes on pandas columns of 64-bit floats. Rounding is not modelled:
  a finite value is a real number and arithmetic on finite values is exact. What is
  modelled of the floating-point format are its special values, because the program
  relies on them: a column division by zero yields an infinity or a not-a-number
  instead of raising, \<^verbatim>\<open>diff\<close> and \<^verbatim>\<open>shift\<close> put a not-a-number in the first row,
  \<^verbatim>\<open>fillna\<close> replaces exactly the not-a-numbers, and every comparison with a
  not-a-number is false (\<^verbatim>\<open>!=\<close> is true). The sign of a zero is not modelled: a zero
  divisor is taken as positive.
\<close>

datatype npfloat = Num real | PosInf | NegInf | NaN

datatype error = ValueError | OverflowError | IndexError

fun np_neg :: "npfloat \<Rightarrow> npfloat" where
  "np_neg (Num a) = Num (- a)"
| "np_neg PosInf = NegInf"
| "np_neg NegInf = PosInf"
| "np_neg NaN = NaN"

fun np_add :: "npfloat \<Rightarrow> npfloat \<Rightarrow> npfloat" where
  "np_add NaN _ = NaN"
| "np_add _ NaN = NaN"
| "np_add (Num a) (Num b) = Num (a + b)"
| "np_add (Num a) y = y"
| "np_add x (Num b) = x"
| "np_add PosInf PosInf = PosInf"
| "np_add NegInf NegInf = NegInf"
| "np_add PosInf NegInf = NaN"
| "np_add NegInf PosInf = NaN"

definition np_sub :: "npfloat \<Rightarrow> npfloat \<Rightarrow> npfloat" where
  "np_sub x y = np_add x (np_neg y)"

fun np_sign :: "npfloat \<Rightarrow> int" where
  "np_sign (Num a) = (if a < 0 then - 1 else 1)"
| "np_sign PosInf = 1"
| "np_sign NegInf = - 1"
| "np_sign NaN = 1"

definition np_inf :: "int \<Rightarrow> npfloat" where
  "np_inf s = (if s < 0 then NegInf else PosInf)"

fun np_mul :: "npfloat \<Rightarrow> npfloat \<Rightarrow> npfloat" where
  "np_mul NaN _ = NaN"
| "np_mul _ NaN = NaN"
| "np_mul (Num a) (Num b) = Num (a * b)"
| "np_mul (Num a) y = (if a = 0 then NaN else np_inf (np_sign (Num a) * np_sign y))"
| "np_mul x (Num b) = (if b = 0 then NaN else np_inf (np_sign x * np_sign (Num b)))"
| "np_mul x y = np_inf (np_sign x * np_sign y)"

fun np_div :: "npfloat \<Rightarrow> npfloat \<Rightarrow> npfloat" where
  "np_div NaN _ = NaN"
| "np_div _ NaN = NaN"
| "np_div (Num a) (Num b) =
     (if b \<noteq> 0 then Num (a / b)
      else if a = 0 then NaN
      else if 0 < a then PosInf else NegInf)"
| "np_div (Num a) y = Num 0"
| "np_div x (Num b) = np_inf (np_sign x * np_sign (Num b))"
| "np_div x y = NaN"

text \<open>Comparisons: false as soon as one side is a not-a-number.\<close>

fun np_less :: "npfloat \<Rightarrow> npfloat \<Rightarrow> bool" where
  "np_less NaN _ = False"
| "np_less _ NaN = False"
| "np_less (Num a) (Num b) = (a < b)"
| "np_less NegInf NegInf = False"
| "np_less NegInf _ = True"
| "np_less _ NegInf = False"
| "np_less PosInf _ = False"
| "np_less _ PosInf = True"

fun np_le :: "npfloat \<Rightarrow> npfloat \<Rightarrow> bool" where
  "np_le NaN _ = False"
| "np_le _ NaN = False"
| "np_le (Num a) (Num b) = (a \<le> b)"
| "np_le NegInf _ = True"
| "np_le _ PosInf = True"
| "np_le _ NegInf = False"
| "np_le PosInf _ = False"

definition np_gt :: "npfloat \<Rightarrow> npfloat \<Rightarrow> bool" where
  "np_gt x y = np_less y x"

definition np_ge :: "npfloat \<Rightarrow> npfloat \<Rightarrow> bool" where
  "np_ge x y = np_le y x"

text \<open>\<^verbatim>\<open>x != y\<close>: true when either side is a not-a-number.\<close>

definition np_ne :: "npfloat \<Rightarrow> npfloat \<Rightarrow> bool" where
  "np_ne x y = (x = NaN \<or> y = NaN \<or> x \<noteq> y)"

definition fillna :: "npfloat \<Rightarrow> npfloat list \<Rightarrow> npfloat list" where
  "fillna v xs = map (\<lambda>x. if x = NaN then v else x) xs"

text \<open>A finite value that is not negative.\<close>

definition nonneg :: "npfloat \<Rightarrow> bool" where
  "nonneg x = (\<exists>a\<ge>0. x = Num a)"

section \<open>Indicator engine: \<^verbatim>\<open>calculate_rsi\<close>\<close>

text \<open>
  \<^verbatim>\<open>data['Close'].diff()\<close>: the change from the previous row; the first row has no
  previous row and holds a not-a-number. The closes are finite (rows with missing
  values were dropped by \<^verbatim>\<open>get_historical_data\<close>).
\<close>

definition diff :: "real list \<Rightarrow> npfloat list" where
  "diff closes =
     (if closes = [] then []
      else NaN # map (\<lambda>(prev, cur). Num (cur - prev)) (zip (butlast closes) (tl closes)))"

text \<open>
  \<^verbatim>\<open>delta.where(cond, 0)\<close> keeps a value where the condition holds and puts 0
  elsewhere; the condition is false on a not-a-number.
\<close>

definition where_or_zero :: "(npfloat \<Rightarrow> bool) \<Rightarrow> npfloat list \<Rightarrow> npfloat list" where
  "where_or_zero cond xs = map (\<lambda>x. if cond x then x else Num 0) xs"

definition gain :: "real list \<Rightarrow> npfloat list" where
  "gain closes = fillna (Num 0) (where_or_zero (\<lambda>d. np_gt d (Num 0)) (diff closes))"

definition loss :: "real list \<Rightarrow> npfloat list" where
  "loss closes =
     fillna (Num 0) (map np_neg (where_or_zero (\<lambda>d. np_less d (Num 0)) (diff closes)))"

text \<open>
  \<^verbatim>\<open>rolling(window=period, min_periods=1).mean()\<close>: at row \<open>t\<close> the mean of the rows
  \<open>max 0 (t + 1 - period) .. t\<close>. The window is never empty when \<open>period \<ge> 1\<close>, and
  the columns it is applied to hold no not-a-number (\<^verbatim>\<open>fillna(0)\<close> came first), so the
  mean is the plain mean of the window.
\<close>

fun np_sum :: "npfloat list \<Rightarrow> npfloat" where
  "np_sum [] = Num 0"
| "np_sum (x # xs) = np_add x (np_sum xs)"

definition window :: "'a list \<Rightarrow> nat \<Rightarrow> nat \<Rightarrow> 'a list" where
  "window xs period t = drop (Suc t - period) (take (Suc t) xs)"

definition rolling_mean :: "npfloat list \<Rightarrow> nat \<Rightarrow> npfloat list" where
  "rolling_mean xs period =
     map (\<lambda>t. np_div (np_sum (window xs period t)) (Num (real (length (window xs period t)))))
       [0..<length xs]"

definition avg_gain :: "real list \<Rightarrow> nat \<Rightarrow> npfloat list" where
  "avg_gain closes period = rolling_mean (gain closes) period"

definition avg_loss :: "real list \<Rightarrow> nat \<Rightarrow> npfloat list" where
  "avg_loss closes period = rolling_mean (loss closes) period"

definition rs :: "real list \<Rightarrow> nat \<Rightarrow> npfloat list" where
  "rs closes period = map (\<lambda>(g, l). np_div g l) (zip (avg_gain closes period) (avg_loss closes period))"

text \<open>
  The RSI column. pandas refuses a window smaller than \<^verbatim>\<open>min_periods = 1\<close> with a
  \<^verbatim>\<open>ValueError\<close>. A positive average gain over a zero average loss is an infinite
  quotient, whatever the sign of the zero, and the indicator is then 100; only zero over
  zero is a not-a-number, which \<^verbatim>\<open>fillna(50)\<close> replaces.
\<close>

definition calculate_rsi :: "real list \<Rightarrow> int \<Rightarrow> error + npfloat list" where
  "calculate_rsi closes period =
     (if period < 1 then Inl ValueError
      else Inr (fillna (Num 50)
             (map (\<lambda>r. np_sub (Num 100) (np_div (Num 100) (np_add (Num 1) r)))
                (rs closes (nat period)))))"

section \<open>Signal generator: \<^verbatim>\<open>generate_signals\<close>\<close>

text \<open>\<^verbatim>\<open>shift(1)\<close>: every value moves one row down; the first row holds a not-a-number.\<close>

definition shift1 :: "npfloat list \<Rightarrow> npfloat list" where
  "shift1 xs = (if xs = [] then [] else NaN # butlast xs)"

definition buy_signals :: "npfloat list \<Rightarrow> real \<Rightarrow> bool list" where
  "buy_signals rsi rsi_oversold =
     map (\<lambda>(cur, prev). np_gt cur (Num rsi_oversold) \<and> np_le prev (Num rsi_oversold))
       (zip rsi (shift1 rsi))"

definition sell_signals :: "npfloat list \<Rightarrow> real \<Rightarrow> bool list" where
  "sell_signals rsi rsi_overbought =
     map (\<lambda>(cur, prev). np_less cur (Num rsi_overbought) \<and> np_ge prev (Num rsi_overbought))
       (zip rsi (shift1 rsi))"

text \<open>
  The column starts at 0, the buy rows are set to 1, then the sell rows are set to -1:
  a row in both masks ends as -1.
\<close>

definition generate_signals :: "npfloat list \<Rightarrow> real \<Rightarrow> real \<Rightarrow> int list" where
  "generate_signals rsi rsi_overbought rsi_oversold =
     map (\<lambda>(b, s). if s then - 1 else if b then 1 else 0)
       (zip (buy_signals rsi rsi_oversold) (sell_signals rsi rsi_overbought))"

section \<open>Strategy simulator: \<^verbatim>\<open>backtest_strategy\<close>\<close>

text \<open>A row of the data frame as the simulator reads it: the close and the signal.\<close>

record row =
  Close :: real
  Signal :: int

text \<open>The local variables of \<^verbatim>\<open>backtest_strategy\<close> that live across loop iterations.\<close>

record ledger =
  cash :: real
  holdings :: int
  total_fees :: real
  portfolio_values :: "real list"
  positions :: "int list"
  trades :: "int list"
  daily_returns :: "real list"
  prev_portfolio_value :: real

definition initial_ledger :: "real \<Rightarrow> ledger" where
  "initial_ledger initial_capital =
     \<lparr>cash = initial_capital, holdings = 0, total_fees = 0, portfolio_values = [],
      positions = [], trades = [], daily_returns = [],
      prev_portfolio_value = initial_capital\<rparr>"

text \<open>
  The \<^verbatim>\<open>if / elif / else\<close> of one iteration; it returns the ledger and the value of
  \<^verbatim>\<open>trade\<close>. \<^verbatim>\<open>int(cash // price)\<close> is the floor of the quotient; with a zero price
  the floor division yields an infinity or a not-a-number, and \<^verbatim>\<open>int\<close> raises on it.
  In the buy branch nothing is appended to \<^verbatim>\<open>positions\<close> when \<^verbatim>\<open>shares > 0\<close> fails:
  the \<^verbatim>\<open>else\<close> that carries the position forward belongs to the outer \<^verbatim>\<open>if\<close>.
\<close>

definition execute_signal :: "real \<Rightarrow> ledger \<Rightarrow> row \<Rightarrow> error + (ledger \<times> int)" where
  "execute_signal fee_percentage s r =
     (let price = Close r; signal = Signal r in
      if signal = 1 \<and> holdings s = 0 then
        (if price = 0 then Inl (if cash s = 0 then ValueError else OverflowError)
         else
           let shares = \<lfloor>cash s / price\<rfloor> in
           if shares > 0 then
             let fee = real_of_int shares * price * fee_percentage in
             Inr (s\<lparr>cash := cash s - (real_of_int shares * price + fee),
                    holdings := holdings s + shares,
                    total_fees := total_fees s + fee,
                    positions := positions s @ [1]\<rparr>, 1)
           else Inr (s, 0))
      else if signal = - 1 \<and> holdings s > 0 then
        (let fee = real_of_int (holdings s) * price * fee_percentage in
         Inr (s\<lparr>cash := cash s + (real_of_int (holdings s) * price - fee),
                holdings := 0,
                total_fees := total_fees s + fee,
                positions := positions s @ [0]\<rparr>, - 1))
      else
        Inr (s\<lparr>positions :=
                 positions s @ [if positions s = [] then 0 else last (positions s)]\<rparr>, 0))"

text \<open>The end of the iteration: portfolio value, trade and daily return are recorded.\<close>

definition record_step :: "ledger \<Rightarrow> real \<Rightarrow> int \<Rightarrow> ledger" where
  "record_step s price trade =
     (let portfolio_value = cash s + real_of_int (holdings s) * price;
          daily_return =
            (if prev_portfolio_value s \<noteq> 0
             then (portfolio_value - prev_portfolio_value s) / prev_portfolio_value s
             else 0)
      in s\<lparr>portfolio_values := portfolio_values s @ [portfolio_value],
            trades := trades s @ [trade],
            daily_returns := daily_returns s @ [daily_return],
            prev_portfolio_value := portfolio_value\<rparr>)"

definition step :: "real \<Rightarrow> ledger \<Rightarrow> row \<Rightarrow> error + ledger" where
  "step fee_percentage s r =
     (case execute_signal fee_percentage s r of
        Inl e \<Rightarrow> Inl e
      | Inr (s', trade) \<Rightarrow> Inr (record_step s' (Close r) trade))"

text \<open>\<^verbatim>\<open>for i in range(len(data))\<close>, from a given ledger.\<close>

fun run_loop :: "real \<Rightarrow> ledger \<Rightarrow> row list \<Rightarrow> error + ledger" where
  "run_loop fee_percentage s [] = Inr s"
| "run_loop fee_percentage s (r # rest) =
     (case step fee_percentage s r of
        Inl e \<Rightarrow> Inl e
      | Inr s' \<Rightarrow> run_loop fee_percentage s' rest)"

text \<open>The ledger after the first \<open>t\<close> iterations of a run.\<close>

definition ledger_after :: "real \<Rightarrow> real \<Rightarrow> row list \<Rightarrow> nat \<Rightarrow> error + ledger" where
  "ledger_after fee_percentage initial_capital data t =
     run_loop fee_percentage (initial_ledger initial_capital) (take t data)"

text \<open>
  The frame that \<^verbatim>\<open>backtest_strategy\<close> returns. Assigning a list to a column raises
  \<^verbatim>\<open>ValueError\<close> when its length is not the number of rows; \<^verbatim>\<open>Total Fees\<close> is a
  scalar, broadcast to every row.
\<close>

record backtest_result =
  Data :: "row list"
  Portfolio_Value :: "real list"
  Total_Fees :: real
  Positions :: "int list"
  Trades :: "int list"
  Strategy_Daily_Return :: "real list"

definition backtest_strategy :: "row list \<Rightarrow> real \<Rightarrow> real \<Rightarrow> error + backtest_result" where
  "backtest_strategy data initial_capital fee_percentage =
     (case run_loop fee_percentage (initial_ledger initial_capital) data of
        Inl e \<Rightarrow> Inl e
      | Inr s \<Rightarrow>
          if length (portfolio_values s) \<noteq> length data then Inl ValueError
          else if length (positions s) \<noteq> length data then Inl ValueError
          else if length (trades s) \<noteq> length data then Inl ValueError
          else if length (daily_returns s) \<noteq> length data then Inl ValueError
          else Inr \<lparr>Data = data, Portfolio_Value = portfolio_values s,
                    Total_Fees = total_fees s, Positions = positions s,
                    Trades = trades s, Strategy_Daily_Return = daily_returns s\<rparr>)"

section \<open>Performance analyzer: \<^verbatim>\<open>calculate_performance_metrics\<close>\<close>

text \<open>
  The pandas reductions skip the not-a-numbers of a column and return a not-a-number
  when nothing is left; the sample standard deviation (\<^verbatim>\<open>ddof = 1\<close>) needs two
  values.
\<close>

definition dropna :: "npfloat list \<Rightarrow> npfloat list" where
  "dropna xs = filter (\<lambda>x. x \<noteq> NaN) xs"

definition np_min :: "npfloat \<Rightarrow> npfloat \<Rightarrow> npfloat" where
  "np_min x y = (if np_less y x then y else x)"

definition np_max :: "npfloat \<Rightarrow> npfloat \<Rightarrow> npfloat" where
  "np_max x y = (if np_less x y then y else x)"

definition series_min :: "npfloat list \<Rightarrow> npfloat" where
  "series_min xs = (case dropna xs of [] \<Rightarrow> NaN | y # ys \<Rightarrow> foldl np_min y ys)"

definition series_max :: "npfloat list \<Rightarrow> npfloat" where
  "series_max xs = (case dropna xs of [] \<Rightarrow> NaN | y # ys \<Rightarrow> foldl np_max y ys)"

text \<open>\<^verbatim>\<open>expanding(min_periods=1).max()\<close>: at row \<open>t\<close> the maximum of the rows \<open>0 .. t\<close>.\<close>

definition expanding_max :: "npfloat list \<Rightarrow> npfloat list" where
  "expanding_max xs = map (\<lambda>t. series_max (take (Suc t) xs)) [0..<length xs]"

definition series_mean :: "npfloat list \<Rightarrow> npfloat" where
  "series_mean xs =
     (let v = dropna xs in
      if v = [] then NaN else np_div (np_sum v) (Num (real (length v))))"

fun np_sqrt :: "npfloat \<Rightarrow> npfloat" where
  "np_sqrt (Num a) = (if a < 0 then NaN else Num (sqrt a))"
| "np_sqrt PosInf = PosInf"
| "np_sqrt NegInf = NaN"
| "np_sqrt NaN = NaN"

definition series_std :: "npfloat list \<Rightarrow> npfloat" where
  "series_std xs =
     (let v = dropna xs in
      if length v < 2 then NaN
      else
        let avg = np_div (np_sum v) (Num (real (length v)));
            sqr = map (\<lambda>x. np_mul (np_sub x avg) (np_sub x avg)) v
        in np_sqrt (np_div (np_sum sqr) (Num (real (length v - 1)))))"

text \<open>
  \<^verbatim>\<open>(mean * 252 - risk_free_rate) / volatility if volatility != 0 else 0\<close>, written
  twice in the source, for the strategy and for buy-and-hold.
\<close>

definition risk_free_rate :: real where
  "risk_free_rate = 1 / 100"

definition sharpe :: "npfloat list \<Rightarrow> npfloat \<Rightarrow> npfloat" where
  "sharpe returns vol =
     (if np_ne vol (Num 0)
      then np_div (np_sub (np_mul (series_mean returns) (Num 252)) (Num risk_free_rate)) vol
      else Num 0)"

definition annualized_volatility :: "npfloat list \<Rightarrow> npfloat" where
  "annualized_volatility returns = np_mul (series_std returns) (Num (sqrt 252))"

definition drawdown :: "npfloat list \<Rightarrow> npfloat list" where
  "drawdown vs = map (\<lambda>(v, m). np_div (np_sub v m) m) (zip vs (expanding_max vs))"

text \<open>\<^verbatim>\<open>data['Close'].pct_change().fillna(0)\<close>.\<close>

definition pct_change :: "real list \<Rightarrow> npfloat list" where
  "pct_change closes =
     (if closes = [] then []
      else NaN # map (\<lambda>(prev, cur). np_sub (np_div (Num cur) (Num prev)) (Num 1))
                   (zip (butlast closes) (tl closes)))"

text \<open>
  The values of the metrics dictionary before they are formatted as text (the
  formatting rounds for display and is not modelled). \<^verbatim>\<open>.iloc[-1]\<close> raises
  \<^verbatim>\<open>IndexError\<close> on an empty column.
\<close>

record metrics =
  portfolio_value :: real
  total_return :: npfloat
  max_drawdown :: npfloat
  volatility :: npfloat
  sharpe_ratio :: npfloat
  fees_paid :: real
  number_of_trades :: int
  bh_portfolio_value :: npfloat
  bh_total_return :: npfloat
  bh_max_drawdown :: npfloat
  bh_volatility :: npfloat
  bh_sharpe_ratio :: npfloat

definition calculate_performance_metrics :: "backtest_result \<Rightarrow> real \<Rightarrow> error + metrics" where
  "calculate_performance_metrics data initial_capital =
     (if Portfolio_Value data = [] \<or> Data data = [] then Inl IndexError
      else
        let final_portfolio_value = last (Portfolio_Value data);
            strategy_daily_returns = map Num (Strategy_Daily_Return data);
            strategy_volatility = annualized_volatility strategy_daily_returns;
            closes = map Close (Data data);
            bh_values =
              map (\<lambda>c. np_mul (Num initial_capital) (np_div (Num c) (Num (hd closes)))) closes;
            bh_daily_returns = fillna (Num 0) (pct_change closes);
            bh_vol = annualized_volatility bh_daily_returns
        in Inr \<lparr>portfolio_value = final_portfolio_value,
                total_return =
                  np_sub (np_div (Num final_portfolio_value) (Num initial_capital)) (Num 1),
                max_drawdown = series_min (drawdown (map Num (Portfolio_Value data))),
                volatility = strategy_volatility,
                sharpe_ratio = sharpe strategy_daily_returns strategy_volatility,
                fees_paid = Total_Fees data,
                number_of_trades = sum_list (map abs (Trades data)),
                bh_portfolio_value = last bh_values,
                bh_total_return =
                  np_sub (np_div (last bh_values) (Num initial_capital)) (Num 1),
                bh_max_drawdown = series_min (drawdown bh_values),
                bh_volatility = bh_vol,
                bh_sharpe_ratio = sharpe bh_daily_returns bh_vol\<rparr>)"

section \<open>The application: \<^verbatim>\<open>BacktestApp.run_backtest\<close>\<close>

text \<open>
  The four text entries the method reads. \<^verbatim>\<open>float\<close> either converts an entry or
  raises \<^verbatim>\<open>ValueError\<close>: \<open>None\<close> is an entry that does not convert. The company comes
  from a drop-down list of the keys of the ticker map, and its lookup is not modelled.
\<close>

record entries =
  capital_entry :: "real option"
  fee_entry :: "real option"
  overbought_entry :: "real option"
  oversold_entry :: "real option"

record parameters =
  initial_capital :: real
  fee_percentage :: real
  rsi_overbought :: real
  rsi_oversold :: real

text \<open>
  The \<^verbatim>\<open>try\<close> block: the checks in the order of the source; \<open>Inl\<close> carries the
  message of the \<^verbatim>\<open>ValueError\<close> that the handler shows.
\<close>

definition no_float :: string where
  "no_float = ''could not convert string to float''"

definition read_inputs :: "entries \<Rightarrow> string + parameters" where
  "read_inputs e =
     (case capital_entry e of
        None \<Rightarrow> Inl no_float
      | Some capital \<Rightarrow>
     if capital \<le> 0 then Inl ''Starting capital must be positive.''
     else case fee_entry e of
        None \<Rightarrow> Inl no_float
      | Some fee \<Rightarrow>
     if fee / 100 < 0 then Inl ''Fee percentage cannot be negative.''
     else case overbought_entry e of
        None \<Rightarrow> Inl no_float
      | Some overbought \<Rightarrow>
     if \<not> (0 < overbought \<and> overbought < 100)
     then Inl ''RSI Overbought level must be between 0 and 100.''
     else case oversold_entry e of
        None \<Rightarrow> Inl no_float
      | Some oversold \<Rightarrow>
     if \<not> (0 < oversold \<and> oversold < 100)
     then Inl ''RSI Oversold level must be between 0 and 100.''
     else if oversold \<ge> overbought
     then Inl ''RSI Oversold level must be less than RSI Overbought level.''
     else Inr \<lparr>initial_capital = capital, fee_percentage = fee / 100,
               rsi_overbought = overbought, rsi_oversold = oversold\<rparr>)"

text \<open>
  What a run did, in order, and how it ended. \<open>InputError\<close> is the error dialog of the
  handler, \<open>NoData\<close> the information dialog, \<open>Raised\<close> an exception that leaves the
  method, \<open>Shown\<close> the metrics that are displayed and plotted.
\<close>

datatype call =
  GetHistoricalData | CalculateRsi | GenerateSignals | BacktestStrategy
  | CalculatePerformanceMetrics | DisplayMetrics | PlotResults

datatype outcome = InputError string | NoData | Raised error | Shown metrics

definition frame :: "real list \<Rightarrow> int list \<Rightarrow> row list" where
  "frame closes signals = map (\<lambda>(c, g). \<lparr>Close = c, Signal = g\<rparr>) (zip closes signals)"

text \<open>
  The three calls that take the fetched closes to the simulation result, with the
  look-back period that \<^verbatim>\<open>calculate_rsi\<close> is given (the application leaves it at its
  default, 14).
\<close>

definition simulate ::
  "real list \<Rightarrow> int \<Rightarrow> real \<Rightarrow> real \<Rightarrow> real \<Rightarrow> real \<Rightarrow> error + backtest_result" where
  "simulate closes period overbought oversold capital fee =
     (case calculate_rsi closes period of
        Inl e \<Rightarrow> Inl e
      | Inr rsi \<Rightarrow>
          backtest_strategy (frame closes (generate_signals rsi overbought oversold))
            capital fee)"

text \<open>
  \<open>fetched\<close> is the close column that \<^verbatim>\<open>get_historical_data\<close> returns for the run (the
  download itself is outside the program).
\<close>

definition run_backtest :: "entries \<Rightarrow> real list \<Rightarrow> call list \<times> outcome" where
  "run_backtest e fetched =
     (case read_inputs e of
        Inl msg \<Rightarrow> ([], InputError msg)
      | Inr p \<Rightarrow>
     if fetched = [] then ([GetHistoricalData], NoData)
     else case calculate_rsi fetched 14 of
        Inl err \<Rightarrow> ([GetHistoricalData, CalculateRsi], Raised err)
      | Inr rsi \<Rightarrow>
     case backtest_strategy
            (frame fetched (generate_signals rsi (rsi_overbought p) (rsi_oversold p)))
            (initial_capital p) (fee_percentage p) of
        Inl err \<Rightarrow>
          ([GetHistoricalData, CalculateRsi, GenerateSignals, BacktestStrategy], Raised err)
      | Inr result \<Rightarrow>
     case calculate_performance_metrics result (initial_capital p) of
        Inl err \<Rightarrow>
          ([GetHistoricalData, CalculateRsi, GenerateSignals, BacktestStrategy,
            CalculatePerformanceMetrics], Raised err)
      | Inr m \<Rightarrow>
          ([GetHistoricalData, CalculateRsi, GenerateSignals, BacktestStrategy,
            CalculatePerformanceMetrics, DisplayMetrics, PlotResults], Shown m))"



section \<open>Properties of the signal generator\<close>

lemma length_shift1: "length (shift1 xs) = length xs"
  by (cases xs) (simp_all add: shift1_def)

lemma shift1_nth: "t < length xs \<Longrightarrow> shift1 xs ! t = (if t = 0 then NaN else xs ! (t - 1))"
  by (cases t) (auto simp: shift1_def nth_butlast)

lemma buy_signals_nth:
  "t < length rsi \<Longrightarrow> buy_signals rsi os ! t =
     (0 < t \<and> np_gt (rsi ! t) (Num os) \<and> np_le (rsi ! (t - 1)) (Num os))"
  by (simp add: buy_signals_def length_shift1 shift1_nth)

lemma sell_signals_nth:
  "t < length rsi \<Longrightarrow> sell_signals rsi ob ! t =
     (0 < t \<and> np_less (rsi ! t) (Num ob) \<and> np_ge (rsi ! (t - 1)) (Num ob))"
  by (simp add: sell_signals_def length_shift1 shift1_nth np_ge_def)

lemma length_buy_signals: "length (buy_signals rsi os) = length rsi"
  by (simp add: buy_signals_def length_shift1)

lemma length_sell_signals: "length (sell_signals rsi ob) = length rsi"
  by (simp add: sell_signals_def length_shift1)

lemma length_generate_signals: "length (generate_signals rsi ob os) = length rsi"
  by (simp add: generate_signals_def length_buy_signals length_sell_signals)

lemma generate_signals_nth:
  "t < length rsi \<Longrightarrow> generate_signals rsi ob os ! t =
     (if sell_signals rsi ob ! t then - 1 else if buy_signals rsi os ! t then 1 else 0)"
  by (simp add: generate_signals_def length_buy_signals length_sell_signals)

lemma np_le_Num_trans: "np_le (Num a) x \<Longrightarrow> np_le x (Num b) \<Longrightarrow> a \<le> b"
  by (cases x) auto

lemma masks_exclusive:
  assumes "os < ob" "t < length rsi"
  shows "\<not> (buy_signals rsi os ! t \<and> sell_signals rsi ob ! t)"
proof
  assume "buy_signals rsi os ! t \<and> sell_signals rsi ob ! t"
  then have "np_le (rsi ! (t - 1)) (Num os)" "np_le (Num ob) (rsi ! (t - 1))"
    using assms(2) by (simp_all add: buy_signals_nth sell_signals_nth np_ge_def)
  then have "ob \<le> os" using np_le_Num_trans by blast
  with assms(1) show False by simp
qed

text \<open>
  C3. With thresholds \<open>0 < os < ob < 100\<close>, at every row \<open>t\<close> of any indicator column:
  the signal is Buy (1) exactly when \<open>t\<close> has a predecessor, the indicator is above
  \<open>os\<close> and was at most \<open>os\<close> the row before; it is Sell (-1) exactly when \<open>t\<close> has a
  predecessor, the indicator is below \<open>ob\<close> and was at least \<open>ob\<close> the row before; it is
  Hold (0) otherwise; row 0 is Hold; and no row is in both the buy and the sell mask.
\<close>

theorem generate_signals_crossings:
  assumes "0 < os" "os < ob" "ob < 100" "t < length rsi"
  shows "length (generate_signals rsi ob os) = length rsi
    \<and> (generate_signals rsi ob os ! t = 1 \<longleftrightarrow>
         0 < t \<and> np_gt (rsi ! t) (Num os) \<and> np_le (rsi ! (t - 1)) (Num os))
    \<and> (generate_signals rsi ob os ! t = - 1 \<longleftrightarrow>
         0 < t \<and> np_less (rsi ! t) (Num ob) \<and> np_ge (rsi ! (t - 1)) (Num ob))
    \<and> (generate_signals rsi ob os ! t = 0 \<longleftrightarrow>
         \<not> (0 < t \<and> np_gt (rsi ! t) (Num os) \<and> np_le (rsi ! (t - 1)) (Num os))
         \<and> \<not> (0 < t \<and> np_less (rsi ! t) (Num ob) \<and> np_ge (rsi ! (t - 1)) (Num ob)))
    \<and> generate_signals rsi ob os ! 0 = 0
    \<and> \<not> (buy_signals rsi os ! t \<and> sell_signals rsi ob ! t)"
proof -
  have excl: "\<not> (buy_signals rsi os ! t \<and> sell_signals rsi ob ! t)"
    using assms by (intro masks_exclusive)
  have len: "length (generate_signals rsi ob os) = length rsi"
    by (rule length_generate_signals)
  have buy: "generate_signals rsi ob os ! t = 1 \<longleftrightarrow>
         0 < t \<and> np_gt (rsi ! t) (Num os) \<and> np_le (rsi ! (t - 1)) (Num os)"
    using excl assms(4) by (auto simp: generate_signals_nth buy_signals_nth)
  have sell: "generate_signals rsi ob os ! t = - 1 \<longleftrightarrow>
         0 < t \<and> np_less (rsi ! t) (Num ob) \<and> np_ge (rsi ! (t - 1)) (Num ob)"
    using assms(4) by (auto simp: generate_signals_nth sell_signals_nth)
  have hold: "generate_signals rsi ob os ! t = 0 \<longleftrightarrow>
         \<not> (0 < t \<and> np_gt (rsi ! t) (Num os) \<and> np_le (rsi ! (t - 1)) (Num os))
         \<and> \<not> (0 < t \<and> np_less (rsi ! t) (Num ob) \<and> np_ge (rsi ! (t - 1)) (Num ob))"
    using assms(4) by (auto simp: generate_signals_nth sell_signals_nth buy_signals_nth)
  have "0 < length rsi" using assms(4) by (cases rsi) auto
  then have first: "generate_signals rsi ob os ! 0 = 0"
    by (simp add: generate_signals_nth sell_signals_nth buy_signals_nth)
  from len buy sell hold first excl show ?thesis by blast
qed

theorem generate_signals_crossings_witness:
  "generate_signals [Num 50, Num 20, Num 40, Num 80, Num 60] 70 30 ! 2 = 1
   \<and> np_gt ([Num 50, Num 20, Num 40, Num 80, Num 60] ! 2) (Num 30)
   \<and> np_le ([Num 50, Num 20, Num 40, Num 80, Num 60] ! 1) (Num 30)
   \<and> generate_signals [Num 50, Num 20, Num 40, Num 80, Num 60] 70 30 ! 0 = 0"
  using generate_signals_crossings [of 30 70 2 "[Num 50, Num 20, Num 40, Num 80, Num 60]"]
  by (simp add: np_gt_def)

section \<open>Properties of the simulator\<close>

lemmas step_defs = step_def execute_signal_def record_step_def Let_def

text \<open>
  C1. A Buy signal while flat with less cash than one share costs: the row adds nothing
  to \<^verbatim>\<open>positions\<close>, the list ends one short and the column assignment raises.
\<close>

theorem backtest_strategy_no_share_raises:
  "backtest_strategy [\<lparr>Close = 100, Signal = 0\<rparr>, \<lparr>Close = 100, Signal = 1\<rparr>] 50 0
     = Inl ValueError"
  by (simp add: backtest_strategy_def initial_ledger_def step_defs)

text \<open>
  The same through the application: a capital of 50, closes 100, 90, 100 (a Buy at the
  last row, where one share costs 100).
\<close>

lemma run_backtest_no_share_raises:
  "run_backtest \<lparr>capital_entry = Some 50, fee_entry = Some 0, overbought_entry = Some 70,
       oversold_entry = Some 30\<rparr> [100, 90, 100]
     = ([GetHistoricalData, CalculateRsi, GenerateSignals, BacktestStrategy], Raised ValueError)"
  by (simp add: run_backtest_def read_inputs_def calculate_rsi_def rs_def avg_gain_def
      avg_loss_def rolling_mean_def window_def gain_def loss_def fillna_def where_or_zero_def
      diff_def np_sub_def np_gt_def np_ge_def generate_signals_def buy_signals_def
      sell_signals_def shift1_def frame_def backtest_strategy_def initial_ledger_def step_defs)

lemma run_loop_append:
  "run_loop f s (xs @ ys) =
     (case run_loop f s xs of Inl e \<Rightarrow> Inl e | Inr s' \<Rightarrow> run_loop f s' ys)"
  by (induction xs arbitrary: s) (auto split: sum.splits)

lemma step_total:
  "Close r \<noteq> 0 \<Longrightarrow> \<exists>s'. step f s r = Inr s'"
  by (auto simp: step_defs)

lemma run_loop_total:
  "\<forall>r\<in>set xs. Close r \<noteq> 0 \<Longrightarrow> \<exists>s'. run_loop f s xs = Inr s'"
proof (induction xs arbitrary: s)
  case Nil
  then show ?case by simp
next
  case (Cons r xs)
  then obtain s1 where "step f s r = Inr s1" using step_total [of r f s] by auto
  with Cons show ?case by auto
qed

lemma step_portfolio_values:
  "step f s r = Inr s' \<Longrightarrow>
     portfolio_values s' = portfolio_values s @ [cash s' + real_of_int (holdings s') * Close r]"
  by (auto simp: step_defs split: if_splits)

lemma run_loop_portfolio_values:
  "run_loop f s xs = Inr s' \<Longrightarrow>
     \<exists>ys. portfolio_values s' = portfolio_values s @ ys \<and> length ys = length xs"
proof (induction xs arbitrary: s)
  case Nil
  then show ?case by simp
next
  case (Cons r xs)
  then obtain s1 where s1: "step f s r = Inr s1" "run_loop f s1 xs = Inr s'"
    by (auto split: sum.splits)
  from Cons.IH [OF s1(2)] obtain ys where
    "portfolio_values s' = portfolio_values s1 @ ys" "length ys = length xs" by blast
  with step_portfolio_values [OF s1(1)] show ?case by simp
qed

lemma take_Suc_snoc: "t < length xs \<Longrightarrow> take (Suc t) xs = take t xs @ [xs ! t]"
  by (simp add: take_Suc_conv_app_nth)

text \<open>
  C2. Whenever the loop runs through, the portfolio value it recorded for row \<open>t\<close> is
  the cash plus the shares held times the close of row \<open>t\<close>, cash and shares being
  those of the ledger at the end of iteration \<open>t\<close>; and when \<^verbatim>\<open>backtest_strategy\<close>
  returns, its \<^verbatim>\<open>Portfolio Value\<close> column holds that value at row \<open>t\<close>.
\<close>

theorem portfolio_value_is_cash_plus_holdings:
  assumes "run_loop fee (initial_ledger ic) data = Inr sf" "t < length data"
  shows "\<exists>s. ledger_after fee ic data (Suc t) = Inr s
           \<and> portfolio_values sf ! t = cash s + real_of_int (holdings s) * Close (data ! t)
           \<and> (\<forall>res. backtest_strategy data ic fee = Inr res \<longrightarrow>
                 Portfolio_Value res ! t = portfolio_values sf ! t)"
proof -
  let ?s0 = "initial_ledger ic"
  have res: "Portfolio_Value res = portfolio_values sf"
    if "backtest_strategy data ic fee = Inr res" for res
    using that assms(1) by (auto simp: backtest_strategy_def split: if_splits)
  have data: "data = take t data @ [data ! t] @ drop (Suc t) data"
    using assms(2) by (simp add: id_take_nth_drop [symmetric])
  from assms(1) data
  have "run_loop fee ?s0 (take t data @ [data ! t] @ drop (Suc t) data) = Inr sf"
    by simp
  then obtain s1 s2 where s1: "run_loop fee ?s0 (take t data) = Inr s1"
    and s2: "step fee s1 (data ! t) = Inr s2"
    and s3: "run_loop fee s2 (drop (Suc t) data) = Inr sf"
    by (auto simp: run_loop_append split: sum.splits)
  have after: "ledger_after fee ic data (Suc t) = Inr s2"
    using s1 s2 assms(2) by (simp add: ledger_after_def take_Suc_snoc run_loop_append)
  from run_loop_portfolio_values [OF s1] have len1: "length (portfolio_values s1) = t"
    using assms(2) by (auto simp: initial_ledger_def)
  from run_loop_portfolio_values [OF s3] obtain ys where
    "portfolio_values sf = portfolio_values s2 @ ys" by blast
  with step_portfolio_values [OF s2] len1
  have "portfolio_values sf ! t = cash s2 + real_of_int (holdings s2) * Close (data ! t)"
    by (simp add: nth_append)
  with after res show ?thesis by simp
qed

theorem portfolio_value_is_cash_plus_holdings_witness:
  "\<exists>s. ledger_after (1 / 100) 1000 [\<lparr>Close = 100, Signal = 1\<rparr>] (Suc 0) = Inr s
      \<and> [990] ! 0 = cash s + real_of_int (holdings s) * 100
      \<and> backtest_strategy [\<lparr>Close = 100, Signal = 1\<rparr>] 1000 (1 / 100)
          = Inr \<lparr>Data = [\<lparr>Close = 100, Signal = 1\<rparr>], Portfolio_Value = [990],
                 Total_Fees = 10, Positions = [1], Trades = [1],
                 Strategy_Daily_Return = [- (1 / 100)]\<rparr>"
proof -
  have loop: "run_loop (1 / 100) (initial_ledger 1000) [\<lparr>Close = 100, Signal = 1\<rparr>]
     = Inr \<lparr>cash = - 10, holdings = 10, total_fees = 10, portfolio_values = [990],
            positions = [1], trades = [1], daily_returns = [- (1 / 100)],
            prev_portfolio_value = 990\<rparr>"
    by (simp add: initial_ledger_def step_defs)
  have run: "backtest_strategy [\<lparr>Close = 100, Signal = 1\<rparr>] 1000 (1 / 100)
     = Inr \<lparr>Data = [\<lparr>Close = 100, Signal = 1\<rparr>], Portfolio_Value = [990],
            Total_Fees = 10, Positions = [1], Trades = [1],
            Strategy_Daily_Return = [- (1 / 100)]\<rparr>"
    by (simp add: backtest_strategy_def initial_ledger_def step_defs)
  from portfolio_value_is_cash_plus_holdings [OF loop, of 0] run show ?thesis by simp
qed

lemma step_total_fees:
  "step f s r = Inr s' \<Longrightarrow> 0 \<le> f \<Longrightarrow> 0 < Close r \<Longrightarrow> total_fees s \<le> total_fees s'"
  by (auto simp: step_defs split: if_splits)

lemma run_loop_total_fees:
  "run_loop f s xs = Inr s' \<Longrightarrow> 0 \<le> f \<Longrightarrow> \<forall>r\<in>set xs. 0 < Close r \<Longrightarrow>
     total_fees s \<le> total_fees s'"
proof (induction xs arbitrary: s)
  case Nil
  then show ?case by simp
next
  case (Cons r xs)
  then obtain s1 where s1: "step f s r = Inr s1" "run_loop f s1 xs = Inr s'"
    by (auto split: sum.splits)
  have "total_fees s \<le> total_fees s1"
    using step_total_fees [OF s1(1)] Cons.prems by simp
  moreover have "total_fees s1 \<le> total_fees s'"
    using Cons.IH [OF s1(2)] Cons.prems by simp
  ultimately show ?case by simp
qed

lemma positive_closes_take:
  assumes "\<forall>r\<in>set xs. 0 < Close r"
  shows "\<forall>r\<in>set (take t xs). Close r \<noteq> 0"
proof
  fix r assume "r \<in> set (take t xs)"
  then have "r \<in> set xs" by (rule in_set_takeD)
  with assms have "0 < Close r" by blast
  then show "Close r \<noteq> 0" by simp
qed

text \<open>
  C9. With a fee rate \<open>\<ge> 0\<close> and positive closes the loop reaches every step, and the
  fee total after \<open>t\<close> iterations is at most the fee total after \<open>t'\<close> iterations
  whenever \<open>t \<le> t'\<close>.
\<close>

theorem cumulative_fees_monotone:
  assumes "0 \<le> fee" "\<forall>r\<in>set data. 0 < Close r" "t \<le> t'" "t' \<le> length data"
  shows "\<exists>s s'. ledger_after fee ic data t = Inr s \<and> ledger_after fee ic data t' = Inr s'
           \<and> total_fees s \<le> total_fees s'"
proof -
  let ?s0 = "initial_ledger ic"
  obtain s where s: "run_loop fee ?s0 (take t data) = Inr s"
    using run_loop_total [OF positive_closes_take [OF assms(2)]] by blast
  have pos: "\<forall>r\<in>set (drop t (take t' data)). 0 < Close r"
    using assms(2) by (auto dest: in_set_dropD in_set_takeD)
  then have "\<forall>r\<in>set (drop t (take t' data)). Close r \<noteq> 0" by auto
  from run_loop_total [OF this]
  obtain s' where s': "run_loop fee s (drop t (take t' data)) = Inr s'" by blast
  have split: "take t' data = take t data @ drop t (take t' data)"
    using assms(3) by (metis append_take_drop_id min.absorb1 take_take)
  have "run_loop fee ?s0 (take t' data) = Inr s'"
    using s s' by (subst split) (simp add: run_loop_append)
  moreover have "total_fees s \<le> total_fees s'"
    using run_loop_total_fees [OF s' assms(1) pos] .
  ultimately show ?thesis using s by (simp add: ledger_after_def)
qed






theorem cumulative_fees_monotone_witness:
  "\<exists>s s'. ledger_after (1 / 100) 1000 [\<lparr>Close = 100, Signal = 1\<rparr>, \<lparr>Close = 120, Signal = - 1\<rparr>] 1 = Inr s
     \<and> ledger_after (1 / 100) 1000 [\<lparr>Close = 100, Signal = 1\<rparr>, \<lparr>Close = 120, Signal = - 1\<rparr>] 2 = Inr s'
     \<and> total_fees s \<le> total_fees s'"
  using cumulative_fees_monotone
    [of "1 / 100" "[\<lparr>Close = 100, Signal = 1\<rparr>, \<lparr>Close = 120, Signal = - 1\<rparr>]" 1 2 1000]
  by simp


lemma step_fee_le:
  assumes "0 \<le> f" "0 < Close r"
    and "step f s r = Inr s'" "step 0 z r = Inr z'"
    and "holdings s = holdings z" "cash s \<le> cash z" "holdings s' = holdings z'"
  shows "cash s' \<le> cash z'"
proof -
  have fee: "0 < n \<Longrightarrow> 0 \<le> real_of_int n * Close r * f" for n
    using assms(1,2) by simp
  show ?thesis
    using assms(3-7) fee [of "holdings z"] fee [of "\<lfloor>cash s / Close r\<rfloor>"]
    by (auto simp: step_defs split: if_splits)
qed

lemma run_loop_fee_le:
  assumes "0 \<le> f" "\<forall>r\<in>set xs. 0 < Close r"
    and "run_loop f s xs = Inr s'" "run_loop 0 z xs = Inr z'"
    and "holdings s = holdings z" "cash s \<le> cash z"
    and "\<forall>k\<le>length xs. \<forall>a b. run_loop f s (take k xs) = Inr a \<longrightarrow>
           run_loop 0 z (take k xs) = Inr b \<longrightarrow> holdings a = holdings b"
  shows "cash s' \<le> cash z' \<and> holdings s' = holdings z'"
  using assms
proof (induction xs arbitrary: s z)
  case Nil
  then show ?case by simp
next
  case (Cons r xs)
  from Cons.prems(3) obtain s1 where s1: "step f s r = Inr s1" "run_loop f s1 xs = Inr s'"
    by (auto split: sum.splits)
  from Cons.prems(4) obtain z1 where z1: "step 0 z r = Inr z1" "run_loop 0 z1 xs = Inr z'"
    by (auto split: sum.splits)
  have same: "\<forall>k\<le>length xs. \<forall>a b. run_loop f s1 (take k xs) = Inr a \<longrightarrow>
           run_loop 0 z1 (take k xs) = Inr b \<longrightarrow> holdings a = holdings b"
  proof (intro allI impI)
    fix k a b
    assume k: "k \<le> length xs" "run_loop f s1 (take k xs) = Inr a"
      "run_loop 0 z1 (take k xs) = Inr b"
    have "Suc k \<le> length (r # xs)" using k(1) by simp
    moreover have "run_loop f s (take (Suc k) (r # xs)) = Inr a" using s1(1) k(2) by simp
    moreover have "run_loop 0 z (take (Suc k) (r # xs)) = Inr b" using z1(1) k(3) by simp
    ultimately show "holdings a = holdings b" using Cons.prems(7) by blast
  qed
  from same have h1: "holdings s1 = holdings z1"
    by (auto dest: spec [of _ 0])
  have c1: "cash s1 \<le> cash z1"
    using step_fee_le [OF Cons.prems(1) _ s1(1) z1(1) Cons.prems(5,6) h1] Cons.prems(2)
    by simp
  show ?case
    using Cons.IH [OF Cons.prems(1) _ s1(2) z1(2) h1 c1 same] Cons.prems(2) by simp
qed

lemma run_loop_last_value:
  assumes "run_loop f s xs = Inr s'" "xs \<noteq> []"
  shows "last (portfolio_values s') = cash s' + real_of_int (holdings s') * Close (last xs)"
proof -
  from assms(2) have xs: "xs = butlast xs @ [last xs]" by simp
  from assms(1) obtain s1 where "step f s1 (last xs) = Inr s'"
    by (subst (asm) xs) (auto simp: run_loop_append split: sum.splits)
  from step_portfolio_values [OF this] show ?thesis by simp
qed

text \<open>
  C8, amended. With positive closes and a fee rate \<open>\<ge> 0\<close>, if the run with the fee
  and the run without fee both return and hold the same number of shares after every
  iteration, the final portfolio value of the run with the fee is at most that of the
  run without fee.
\<close>

theorem fee_run_not_above_zero_fee_run:
  assumes "0 \<le> fee" "\<forall>r\<in>set data. 0 < Close r" "data \<noteq> []"
    and "backtest_strategy data ic fee = Inr rf" "backtest_strategy data ic 0 = Inr r0"
    and "\<forall>t\<le>length data. \<forall>a b. ledger_after fee ic data t = Inr a \<longrightarrow>
           ledger_after 0 ic data t = Inr b \<longrightarrow> holdings a = holdings b"
  shows "last (Portfolio_Value rf) \<le> last (Portfolio_Value r0)"
proof -
  let ?s0 = "initial_ledger ic"
  from assms(4) obtain sf where sf: "run_loop fee ?s0 data = Inr sf"
    and rf: "Portfolio_Value rf = portfolio_values sf"
    by (auto simp: backtest_strategy_def split: sum.splits if_splits)
  from assms(5) obtain sz where sz: "run_loop 0 ?s0 data = Inr sz"
    and r0: "Portfolio_Value r0 = portfolio_values sz"
    by (auto simp: backtest_strategy_def split: sum.splits if_splits)
  have "cash sf \<le> cash sz \<and> holdings sf = holdings sz"
    using run_loop_fee_le [OF assms(1,2) sf sz] assms(6)
    by (simp add: ledger_after_def)
  moreover have "0 < Close (last data)" using assms(2,3) by simp
  ultimately have "cash sf + real_of_int (holdings sf) * Close (last data)
      \<le> cash sz + real_of_int (holdings sz) * Close (last data)" by simp
  then show ?thesis
    using run_loop_last_value [OF sf assms(3)] run_loop_last_value [OF sz assms(3)] rf r0
    by simp
qed


section \<open>A worked run\<close>

lemmas rsi_defs = calculate_rsi_def rs_def avg_gain_def avg_loss_def rolling_mean_def
  window_def gain_def loss_def fillna_def where_or_zero_def diff_def np_sub_def np_gt_def

lemma rsi_example:
  "calculate_rsi [100, 90, 100, 130, 120, 40, 50, 1] 14
     = Inr [Num 50, Num 0, Num 50, Num 80, Num (200 / 3), Num (200 / 7), Num (100 / 3),
            Num (5000 / 199)]"
  by (simp add: rsi_defs)

lemma signals_example:
  "generate_signals [Num 50, Num 0, Num 50, Num 80, Num (200 / 3), Num (200 / 7), Num (100 / 3),
            Num (5000 / 199)] 70 30 = [0, 0, 1, 0, - 1, 0, 1, 0]"
  by (simp add: generate_signals_def buy_signals_def sell_signals_def shift1_def np_gt_def np_ge_def)

lemma frame_example:
  "frame [100, 90, 100, 130, 120, 40, 50, 1] [0, 0, 1, 0, - 1, 0, 1, 0]
     = [\<lparr>Close = 100, Signal = 0\<rparr>, \<lparr>Close = 90, Signal = 0\<rparr>,
         \<lparr>Close = 100, Signal = 1\<rparr>, \<lparr>Close = 130, Signal = 0\<rparr>,
         \<lparr>Close = 120, Signal = - 1\<rparr>, \<lparr>Close = 40, Signal = 0\<rparr>,
         \<lparr>Close = 50, Signal = 1\<rparr>, \<lparr>Close = 1, Signal = 0\<rparr>]"
  by (simp add: frame_def)

text \<open>
  C8 as stated fails. On the closes below, with period 14 and thresholds 70 and 30,
  both runs trade (buy, sell, buy). The fee of 1 percent leaves the second buy with 23
  shares instead of 24; the price then falls to 1, and the run with the fee ends at
  79/2, above the 24 of the run without fee.
\<close>

theorem fee_sensitivity_counterexample:
  "simulate [100, 90, 100, 130, 120, 40, 50, 1] 14 70 30 1000 (1 / 100)
     = Inr \<lparr>Data =
        [\<lparr>Close = 100, Signal = 0\<rparr>, \<lparr>Close = 90, Signal = 0\<rparr>,
         \<lparr>Close = 100, Signal = 1\<rparr>, \<lparr>Close = 130, Signal = 0\<rparr>,
         \<lparr>Close = 120, Signal = - 1\<rparr>, \<lparr>Close = 40, Signal = 0\<rparr>,
         \<lparr>Close = 50, Signal = 1\<rparr>, \<lparr>Close = 1, Signal = 0\<rparr>],
        Portfolio_Value = [1000, 1000, 990, 1290, 1178, 1178, 2333 / 2, 79 / 2],
        Total_Fees = 67 / 2, Positions = [0, 0, 1, 1, 0, 0, 1, 1],
        Trades = [0, 0, 1, 0, - 1, 0, 1, 0],
        Strategy_Daily_Return =
          [0, 0, - (1 / 100), 10 / 33, - (56 / 645), 0, - (23 / 2356), - (2254 / 2333)]\<rparr>
   \<and> simulate [100, 90, 100, 130, 120, 40, 50, 1] 14 70 30 1000 0
     = Inr \<lparr>Data =
        [\<lparr>Close = 100, Signal = 0\<rparr>, \<lparr>Close = 90, Signal = 0\<rparr>,
         \<lparr>Close = 100, Signal = 1\<rparr>, \<lparr>Close = 130, Signal = 0\<rparr>,
         \<lparr>Close = 120, Signal = - 1\<rparr>, \<lparr>Close = 40, Signal = 0\<rparr>,
         \<lparr>Close = 50, Signal = 1\<rparr>, \<lparr>Close = 1, Signal = 0\<rparr>],
        Portfolio_Value = [1000, 1000, 1000, 1300, 1200, 1200, 1200, 24],
        Total_Fees = 0, Positions = [0, 0, 1, 1, 0, 0, 1, 1],
        Trades = [0, 0, 1, 0, - 1, 0, 1, 0],
        Strategy_Daily_Return = [0, 0, 0, 3 / 10, - (1 / 13), 0, 0, - (49 / 50)]\<rparr>
   \<and> \<not> (last [1000, 1000, 990, 1290, 1178, 1178, 2333 / 2, 79 / 2 :: real]
          \<le> last [1000, 1000, 1000, 1300, 1200, 1200, 1200, 24])"
  by (simp add: simulate_def rsi_example signals_example frame_example
      backtest_strategy_def initial_ledger_def step_defs)

theorem fee_run_not_above_zero_fee_run_witness:
  "\<exists>rf r0. backtest_strategy [\<lparr>Close = 100, Signal = 1\<rparr>, \<lparr>Close = 120, Signal = - 1\<rparr>] 1000 (1 / 100) = Inr rf
     \<and> backtest_strategy [\<lparr>Close = 100, Signal = 1\<rparr>, \<lparr>Close = 120, Signal = - 1\<rparr>] 1000 0 = Inr r0
     \<and> Trades rf = [1, - 1]
     \<and> last (Portfolio_Value rf) \<le> last (Portfolio_Value r0)"
proof -
  let ?D = "[\<lparr>Close = 100, Signal = 1\<rparr>, \<lparr>Close = 120, Signal = - 1\<rparr>]"
  let ?rf = "\<lparr>Data = ?D, Portfolio_Value = [990, 1178], Total_Fees = 22, Positions = [1, 0],
              Trades = [1, - 1], Strategy_Daily_Return = [- (1 / 100), 94 / 495]\<rparr>"
  let ?r0 = "\<lparr>Data = ?D, Portfolio_Value = [1000, 1200], Total_Fees = 0, Positions = [1, 0],
              Trades = [1, - 1], Strategy_Daily_Return = [0, 1 / 5]\<rparr>"
  have rf: "backtest_strategy ?D 1000 (1 / 100) = Inr ?rf"
    by (simp add: backtest_strategy_def initial_ledger_def step_defs)
  have r0: "backtest_strategy ?D 1000 0 = Inr ?r0"
    by (simp add: backtest_strategy_def initial_ledger_def step_defs)
  have same: "\<forall>t\<le>length ?D. \<forall>a b. ledger_after (1 / 100) 1000 ?D t = Inr a \<longrightarrow>
           ledger_after 0 1000 ?D t = Inr b \<longrightarrow> holdings a = holdings b"
  proof (intro allI impI)
    fix t a b
    assume t: "t \<le> length ?D"
      and a: "ledger_after (1 / 100) 1000 ?D t = Inr a"
      and b: "ledger_after 0 1000 ?D t = Inr b"
    from t consider "t = 0" | "t = Suc 0" | "t = Suc (Suc 0)"
      by (auto simp: le_Suc_eq)
    then show "holdings a = holdings b"
      using a b by cases (auto simp: ledger_after_def initial_ledger_def step_defs)
  qed
  have "last (Portfolio_Value ?rf) \<le> last (Portfolio_Value ?r0)"
    using fee_run_not_above_zero_fee_run [OF _ _ _ rf r0 same] by simp
  with rf r0 show ?thesis by simp
qed

section \<open>Properties of the application\<close>

text \<open>
  C6. If the capital is \<open>\<le> 0\<close>, or the fee rate is negative, or a threshold is outside
  \<open>(0, 100)\<close>, or the oversold threshold is not below the overbought one, the run ends in
  the input-error dialog and nothing was called: no retrieval, indicator, signal,
  simulation or analysis.
\<close>

theorem invalid_parameters_rejected:
  assumes "(\<exists>c. capital_entry e = Some c \<and> c \<le> 0)
         \<or> (\<exists>f. fee_entry e = Some f \<and> f / 100 < 0)
         \<or> (\<exists>b. overbought_entry e = Some b \<and> \<not> (0 < b \<and> b < 100))
         \<or> (\<exists>v. oversold_entry e = Some v \<and> \<not> (0 < v \<and> v < 100))
         \<or> (\<exists>b v. overbought_entry e = Some b \<and> oversold_entry e = Some v \<and> b \<le> v)"
  shows "\<exists>msg. run_backtest e fetched = ([], InputError msg)"
proof -
  from assms have "\<exists>msg. read_inputs e = Inl msg"
    by (auto simp: read_inputs_def split: option.splits)
  then show ?thesis by (auto simp: run_backtest_def)
qed

theorem invalid_parameters_rejected_witness:
  "run_backtest \<lparr>capital_entry = Some 1000, fee_entry = Some 1, overbought_entry = Some 30,
       oversold_entry = Some 70\<rparr> [100, 90, 100]
     = ([], InputError ''RSI Oversold level must be less than RSI Overbought level.'')"
  using invalid_parameters_rejected [of "\<lparr>capital_entry = Some 1000, fee_entry = Some 1,
       overbought_entry = Some 30, oversold_entry = Some 70\<rparr>" "[100, 90, 100]"]
  by (simp add: run_backtest_def read_inputs_def)

text \<open>
  C7. When the inputs are accepted and the retrieved series is empty, the run ends in
  the no-data information dialog; the retrieval is the only call made, and nothing is
  raised.
\<close>

theorem empty_series_is_no_data:
  assumes "read_inputs e = Inr p"
  shows "run_backtest e [] = ([GetHistoricalData], NoData)"
  using assms by (simp add: run_backtest_def)

theorem empty_series_is_no_data_witness:
  "run_backtest \<lparr>capital_entry = Some 1000, fee_entry = Some 1, overbought_entry = Some 70,
       oversold_entry = Some 30\<rparr> [] = ([GetHistoricalData], NoData)"
proof -
  have "read_inputs \<lparr>capital_entry = Some 1000, fee_entry = Some 1, overbought_entry = Some 70,
       oversold_entry = Some 30\<rparr>
     = Inr \<lparr>initial_capital = 1000, fee_percentage = 1 / 100, rsi_overbought = 70,
            rsi_oversold = 30\<rparr>"
    by (simp add: read_inputs_def)
  then show ?thesis by (rule empty_series_is_no_data)
qed


section \<open>Properties of the indicator engine\<close>

lemma length_diff: "length (diff closes) = length closes"
  by (cases closes) (simp_all add: diff_def)

lemma length_gain: "length (gain closes) = length closes"
  by (simp add: gain_def fillna_def where_or_zero_def length_diff)

lemma length_loss: "length (loss closes) = length closes"
  by (simp add: loss_def fillna_def where_or_zero_def length_diff)

lemma length_rolling_mean: "length (rolling_mean xs p) = length xs"
  by (simp add: rolling_mean_def)

lemma length_rs: "length (rs closes p) = length closes"
  by (simp add: rs_def avg_gain_def avg_loss_def length_rolling_mean length_gain length_loss)

lemma rolling_mean_nth:
  "t < length xs \<Longrightarrow> rolling_mean xs p ! t =
     np_div (np_sum (window xs p t)) (Num (real (length (window xs p t))))"
  by (simp add: rolling_mean_def)

lemma length_window: "t < length xs \<Longrightarrow> 1 \<le> p \<Longrightarrow> 0 < length (window xs p t)"
  by (simp add: window_def)

lemma set_window: "set (window xs p t) \<subseteq> set xs"
proof -
  have "set (window xs p t) \<subseteq> set (take (Suc t) xs)"
    unfolding window_def by (rule set_drop_subset)
  also have "\<dots> \<subseteq> set xs" by (rule set_take_subset)
  finally show ?thesis .
qed

text \<open>Gains and losses are finite and not negative.\<close>

lemma nonnegI: "0 \<le> a \<Longrightarrow> nonneg (Num a)"
  by (simp add: nonneg_def)

lemma diff_elements: "d \<in> set (diff closes) \<Longrightarrow> d = NaN \<or> (\<exists>a. d = Num a)"
  by (auto simp: diff_def split: if_splits)

lemma gain_nonneg: "\<forall>x\<in>set (gain closes). nonneg x"
proof
  fix x assume "x \<in> set (gain closes)"
  then have "x \<in> (\<lambda>w. if w = NaN then Num 0 else w) `
      (\<lambda>d. if np_gt d (Num 0) then d else Num 0) ` set (diff closes)"
    by (simp only: gain_def fillna_def where_or_zero_def set_map)
  then obtain d where d: "d \<in> set (diff closes)"
    and x: "x = (if (if np_gt d (Num 0) then d else Num 0) = NaN then Num 0
                 else (if np_gt d (Num 0) then d else Num 0))"
    by blast
  from diff_elements [OF d] show "nonneg x"
  proof
    assume "d = NaN"
    with x show ?thesis by (simp add: np_gt_def nonneg_def)
  next
    assume "\<exists>a. d = Num a"
    then obtain a where "d = Num a" ..
    with x show ?thesis by (simp add: np_gt_def nonneg_def)
  qed
qed

lemma loss_nonneg: "\<forall>x\<in>set (loss closes). nonneg x"
proof
  fix x assume "x \<in> set (loss closes)"
  then have "x \<in> (\<lambda>w. if w = NaN then Num 0 else w) ` np_neg `
      (\<lambda>d. if np_less d (Num 0) then d else Num 0) ` set (diff closes)"
    by (simp only: loss_def fillna_def where_or_zero_def set_map)
  then obtain d where d: "d \<in> set (diff closes)"
    and x: "x = (if np_neg (if np_less d (Num 0) then d else Num 0) = NaN then Num 0
                 else np_neg (if np_less d (Num 0) then d else Num 0))"
    by blast
  from diff_elements [OF d] show "nonneg x"
  proof
    assume "d = NaN"
    with x show ?thesis by (simp add: nonneg_def)
  next
    assume "\<exists>a. d = Num a"
    then obtain a where "d = Num a" ..
    with x show ?thesis by (simp add: nonneg_def)
  qed
qed

lemma np_sum_nonneg: "\<forall>x\<in>set xs. nonneg x \<Longrightarrow> nonneg (np_sum xs)"
proof (induction xs)
  case Nil
  then show ?case by (simp add: nonneg_def)
next
  case (Cons x xs)
  then obtain a b where "0 \<le> a" "x = Num a" "0 \<le> b" "np_sum xs = Num b"
    by (auto simp: nonneg_def)
  then show ?case by (simp add: nonneg_def)
qed

lemma rolling_mean_nonneg:
  assumes "\<forall>x\<in>set xs. nonneg x" "t < length xs" "1 \<le> p"
  shows "nonneg (rolling_mean xs p ! t)"
proof -
  have "\<forall>x\<in>set (window xs p t). nonneg x"
  proof
    fix x assume "x \<in> set (window xs p t)"
    with set_window [of xs p t] have "x \<in> set xs" by (rule subsetD)
    with assms(1) show "nonneg x" by (rule bspec)
  qed
  then have "nonneg (np_sum (window xs p t))" by (rule np_sum_nonneg)
  then obtain a where a: "0 \<le> a" "np_sum (window xs p t) = Num a"
    unfolding nonneg_def by blast
  have k: "0 < real (length (window xs p t))" using length_window [OF assms(2,3)] by simp
  have "rolling_mean xs p ! t = Num (a / real (length (window xs p t)))"
    using a(2) k by (simp add: rolling_mean_nth [OF assms(2)])
  moreover have "0 \<le> a / real (length (window xs p t))" using a(1) k by simp
  ultimately show ?thesis by (simp only: nonnegI)
qed


lemma calculate_rsi_nth:
  assumes "1 \<le> period" "t < length closes"
  shows "\<exists>rsi. calculate_rsi closes period = Inr rsi \<and> length rsi = length closes
     \<and> rsi ! t = (let x = np_sub (Num 100) (np_div (Num 100) (np_add (Num 1)
          (np_div (avg_gain closes (nat period) ! t) (avg_loss closes (nat period) ! t))))
        in if x = NaN then Num 50 else x)"
proof -
  have len: "length (avg_gain closes (nat period)) = length closes"
    "length (avg_loss closes (nat period)) = length closes"
    by (simp_all add: avg_gain_def avg_loss_def length_rolling_mean length_gain length_loss)
  have "rs closes (nat period) ! t =
      np_div (avg_gain closes (nat period) ! t) (avg_loss closes (nat period) ! t)"
    using assms(2) len by (simp add: rs_def)
  then show ?thesis
    using assms by (simp add: calculate_rsi_def fillna_def length_rs Let_def)
qed

lemma rsi_without_loss:
  assumes "1 \<le> period" "t < length closes" "avg_loss closes (nat period) ! t = Num 0"
  shows "\<exists>rsi. calculate_rsi closes period = Inr rsi
     \<and> rsi ! t = (if avg_gain closes (nat period) ! t = Num 0 then Num 50 else Num 100)"
proof -
  have "nonneg (avg_gain closes (nat period) ! t)"
    unfolding avg_gain_def using assms(1,2)
    by (intro rolling_mean_nonneg gain_nonneg) (simp_all add: length_gain)
  then obtain g where g: "0 \<le> g" "avg_gain closes (nat period) ! t = Num g"
    unfolding nonneg_def by blast
  from calculate_rsi_nth [OF assms(1,2)] obtain rsi where
    rsi: "calculate_rsi closes period = Inr rsi"
    "rsi ! t = (let x = np_sub (Num 100) (np_div (Num 100) (np_add (Num 1)
          (np_div (avg_gain closes (nat period) ! t) (avg_loss closes (nat period) ! t))))
        in if x = NaN then Num 50 else x)"
    by blast
  have "rsi ! t = (if g = 0 then Num 50 else Num 100)"
    using g(1) by (simp add: rsi(2) g(2) assms(3) np_sub_def Let_def)
  with rsi(1) g(2) show ?thesis by simp
qed


lemma metrics_total:
  assumes "Portfolio_Value res \<noteq> []" "Data res \<noteq> []"
  shows "\<exists>m. calculate_performance_metrics res ic = Inr m
     \<and> volatility m = annualized_volatility (map Num (Strategy_Daily_Return res))
     \<and> sharpe_ratio m = sharpe (map Num (Strategy_Daily_Return res)) (volatility m)
     \<and> bh_sharpe_ratio m =
         sharpe (fillna (Num 0) (pct_change (map Close (Data res)))) (bh_volatility m)
     \<and> total_return m = np_sub (np_div (Num (last (Portfolio_Value res))) (Num ic)) (Num 1)
     \<and> max_drawdown m = series_min (drawdown (map Num (Portfolio_Value res)))"
  using assms by (simp add: calculate_performance_metrics_def Let_def)

lemma sharpe_without_volatility: "sharpe returns (Num 0) = Num 0"
  by (simp add: sharpe_def np_ne_def)

text \<open>
  C4, amended. With a period \<open>\<ge> 1\<close>, at a row where the trailing average loss is 0
  \<^verbatim>\<open>calculate_rsi\<close> returns and the indicator is 50 when the trailing average gain is 0
  as well, and 100 otherwise (the quotient is then infinite, not undefined, and
  \<^verbatim>\<open>fillna\<close> leaves it alone). On a non-empty frame \<^verbatim>\<open>calculate_performance_metrics\<close>
  returns, and a Sharpe ratio, of the strategy or of buy-and-hold, is 0 whenever its
  annualized volatility is 0.
\<close>

theorem neutral_without_moves_and_sharpe_without_volatility:
  assumes "1 \<le> period" "t < length closes" "avg_loss closes (nat period) ! t = Num 0"
    and "Portfolio_Value res \<noteq> []" "Data res \<noteq> []"
  shows "(\<exists>rsi. calculate_rsi closes period = Inr rsi
            \<and> rsi ! t = (if avg_gain closes (nat period) ! t = Num 0 then Num 50 else Num 100))
       \<and> (\<exists>m. calculate_performance_metrics res ic = Inr m
            \<and> (volatility m = Num 0 \<longrightarrow> sharpe_ratio m = Num 0)
            \<and> (bh_volatility m = Num 0 \<longrightarrow> bh_sharpe_ratio m = Num 0))"
proof
  show "\<exists>rsi. calculate_rsi closes period = Inr rsi
            \<and> rsi ! t = (if avg_gain closes (nat period) ! t = Num 0 then Num 50 else Num 100)"
    using assms(1-3) by (rule rsi_without_loss)
next
  from metrics_total [OF assms(4,5), of ic] obtain m where
    m: "calculate_performance_metrics res ic = Inr m"
    "sharpe_ratio m = sharpe (map Num (Strategy_Daily_Return res)) (volatility m)"
    "bh_sharpe_ratio m =
         sharpe (fillna (Num 0) (pct_change (map Close (Data res)))) (bh_volatility m)"
    by blast
  have "volatility m = Num 0 \<longrightarrow> sharpe_ratio m = Num 0"
    by (simp add: m(2) sharpe_without_volatility)
  moreover have "bh_volatility m = Num 0 \<longrightarrow> bh_sharpe_ratio m = Num 0"
    by (simp add: m(3) sharpe_without_volatility)
  ultimately show "\<exists>m. calculate_performance_metrics res ic = Inr m
            \<and> (volatility m = Num 0 \<longrightarrow> sharpe_ratio m = Num 0)
            \<and> (bh_volatility m = Num 0 \<longrightarrow> bh_sharpe_ratio m = Num 0)"
    using m(1) by blast
qed

lemma rising_example:
  "avg_loss [100, 110] (nat 14) ! 1 = Num 0 \<and> avg_gain [100, 110] (nat 14) ! 1 = Num 5
   \<and> calculate_rsi [100, 110] 14 = Inr [Num 50, Num 100]"
  by (simp add: rsi_defs)

text \<open>
  C4 as stated fails. On the closes 100, 110 the average loss at row 1 is 0 and the
  indicator there is 100, not 50.
\<close>

theorem rising_prices_counterexample:
  "avg_loss [100, 110] (nat 14) ! 1 = Num 0
   \<and> calculate_rsi [100, 110] 14 = Inr [Num 50, Num 100]
   \<and> [Num 50, Num 100] ! 1 \<noteq> Num 50"
  by (simp add: rsi_defs)

lemma flat_volatility: "annualized_volatility [Num 0, Num 0] = Num 0"
  by (simp add: annualized_volatility_def series_std_def dropna_def np_sub_def Let_def)

theorem neutral_without_moves_and_sharpe_without_volatility_witness:
  "(\<exists>rsi. calculate_rsi [100, 110] 14 = Inr rsi \<and> rsi ! 1 = Num 100)
   \<and> (\<exists>m. calculate_performance_metrics
             \<lparr>Data = [\<lparr>Close = 100, Signal = 0\<rparr>, \<lparr>Close = 100, Signal = 0\<rparr>],
              Portfolio_Value = [1000, 1000], Total_Fees = 0, Positions = [0, 0],
              Trades = [0, 0], Strategy_Daily_Return = [0, 0]\<rparr> 1000 = Inr m
          \<and> volatility m = Num 0 \<and> sharpe_ratio m = Num 0)"
proof -
  let ?res = "\<lparr>Data = [\<lparr>Close = 100, Signal = 0\<rparr>, \<lparr>Close = 100, Signal = 0\<rparr>],
              Portfolio_Value = [1000, 1000], Total_Fees = 0, Positions = [0, 0],
              Trades = [0, 0], Strategy_Daily_Return = [0, 0]\<rparr>"
  have loss: "avg_loss [100, 110] (nat 14) ! 1 = Num 0"
    and gain: "avg_gain [100, 110] (nat 14) ! 1 = Num 5"
    using rising_example by simp_all
  have vol: "volatility m = Num 0" if "calculate_performance_metrics ?res 1000 = Inr m" for m
    using metrics_total [of ?res 1000] that flat_volatility by simp
  from neutral_without_moves_and_sharpe_without_volatility
    [of 14 1 "[100, 110]" ?res 1000, OF _ _ loss]
  show ?thesis using gain vol by auto
qed


section \<open>Constant prices\<close>

lemma constant_list: "\<forall>x\<in>set xs. x = v \<Longrightarrow> xs = replicate (length xs) v"
  by (induction xs) simp_all

lemma diff_constant:
  assumes "\<forall>x\<in>set closes. x = c" "d \<in> set (diff closes)"
  shows "d = NaN \<or> d = Num 0"
proof -
  from assms(2) consider "d = NaN"
    | prev cur where "(prev, cur) \<in> set (zip (butlast closes) (tl closes))" "d = Num (cur - prev)"
    by (auto simp: diff_def split: if_splits)
  then show ?thesis
  proof cases
    case 1
    then show ?thesis by simp
  next
    case 2
    then have "prev \<in> set (butlast closes)" "cur \<in> set (tl closes)"
      by (auto dest: set_zip_leftD set_zip_rightD)
    then have "prev \<in> set closes" "cur \<in> set closes"
      by (auto dest: in_set_butlastD list.set_sel(2) [rotated])
    with assms(1) have "prev = c" "cur = c" by blast+
    with 2 show ?thesis by simp
  qed
qed

lemma gain_constant:
  assumes "\<forall>x\<in>set closes. x = c"
  shows "\<forall>x\<in>set (gain closes). x = Num 0"
proof
  fix x assume "x \<in> set (gain closes)"
  then have "x \<in> (\<lambda>w. if w = NaN then Num 0 else w) `
      (\<lambda>d. if np_gt d (Num 0) then d else Num 0) ` set (diff closes)"
    by (simp only: gain_def fillna_def where_or_zero_def set_map)
  then obtain d where d: "d \<in> set (diff closes)"
    and x: "x = (if (if np_gt d (Num 0) then d else Num 0) = NaN then Num 0
                 else (if np_gt d (Num 0) then d else Num 0))"
    by blast
  from diff_constant [OF assms d] x show "x = Num 0"
    by (auto simp: np_gt_def)
qed

lemma loss_constant:
  assumes "\<forall>x\<in>set closes. x = c"
  shows "\<forall>x\<in>set (loss closes). x = Num 0"
proof
  fix x assume "x \<in> set (loss closes)"
  then have "x \<in> (\<lambda>w. if w = NaN then Num 0 else w) ` np_neg `
      (\<lambda>d. if np_less d (Num 0) then d else Num 0) ` set (diff closes)"
    by (simp only: loss_def fillna_def where_or_zero_def set_map)
  then obtain d where d: "d \<in> set (diff closes)"
    and x: "x = (if np_neg (if np_less d (Num 0) then d else Num 0) = NaN then Num 0
                 else np_neg (if np_less d (Num 0) then d else Num 0))"
    by blast
  from diff_constant [OF assms d] x show "x = Num 0"
    by auto
qed

lemma np_sum_zeros: "\<forall>x\<in>set xs. x = Num 0 \<Longrightarrow> np_sum xs = Num 0"
  by (induction xs) simp_all

lemma rolling_mean_zeros:
  assumes "\<forall>x\<in>set xs. x = Num 0" "t < length xs" "1 \<le> p"
  shows "rolling_mean xs p ! t = Num 0"
proof -
  have "\<forall>x\<in>set (window xs p t). x = Num 0"
  proof
    fix x assume "x \<in> set (window xs p t)"
    with set_window [of xs p t] have "x \<in> set xs" by (rule subsetD)
    with assms(1) show "x = Num 0" by (rule bspec)
  qed
  then have "np_sum (window xs p t) = Num 0" by (rule np_sum_zeros)
  moreover have "0 < real (length (window xs p t))"
    using length_window [OF assms(2,3)] by simp
  ultimately show ?thesis by (simp add: rolling_mean_nth [OF assms(2)])
qed

lemma calculate_rsi_constant:
  assumes "\<forall>x\<in>set closes. x = c" "1 \<le> period"
  shows "calculate_rsi closes period = Inr (replicate (length closes) (Num 50))"
proof -
  have nth: "rsi ! t = Num 50"
    if "calculate_rsi closes period = Inr rsi" "t < length closes" for rsi t
  proof -
    have "avg_gain closes (nat period) ! t = Num 0"
      unfolding avg_gain_def using that(2) assms(2)
      by (intro rolling_mean_zeros gain_constant [OF assms(1)]) (simp_all add: length_gain)
    moreover have "avg_loss closes (nat period) ! t = Num 0"
      unfolding avg_loss_def using that(2) assms(2)
      by (intro rolling_mean_zeros loss_constant [OF assms(1)]) (simp_all add: length_loss)
    ultimately show ?thesis
      using calculate_rsi_nth [OF assms(2) that(2)] that(1) by (simp add: np_sub_def Let_def)
  qed
  obtain rsi where rsi: "calculate_rsi closes period = Inr rsi" "length rsi = length closes"
    using assms(2) by (simp add: calculate_rsi_def fillna_def length_rs)
  have "rsi = replicate (length closes) (Num 50)"
    using rsi nth by (intro nth_equalityI) simp_all
  with rsi(1) show ?thesis by simp
qed

lemma generate_signals_neutral:
  "generate_signals (replicate n (Num 50)) ob os = replicate n 0"
proof (intro nth_equalityI)
  show "length (generate_signals (replicate n (Num 50)) ob os) = length (replicate n (0::int))"
    by (simp add: length_generate_signals)
next
  fix t assume "t < length (generate_signals (replicate n (Num 50)) ob os)"
  then have t: "t < length (replicate n (Num 50))" by (simp add: length_generate_signals)
  have "\<not> buy_signals (replicate n (Num 50)) os ! t"
    using t by (auto simp: buy_signals_nth [OF t] np_gt_def)
  moreover have "\<not> sell_signals (replicate n (Num 50)) ob ! t"
    using t by (auto simp: sell_signals_nth [OF t] np_ge_def)
  ultimately show "generate_signals (replicate n (Num 50)) ob os ! t = replicate n 0 ! t"
    using t by (simp add: generate_signals_nth [OF t])
qed


lemma step_hold:
  assumes "Signal r = 0" "holdings s = 0" "prev_portfolio_value s = cash s"
  shows "step f s r =
     Inr (s\<lparr>portfolio_values := portfolio_values s @ [cash s],
            positions := positions s @ [if positions s = [] then 0 else last (positions s)],
            trades := trades s @ [0],
            daily_returns := daily_returns s @ [0]\<rparr>)"
  using assms by (simp add: step_defs)

lemma run_loop_hold:
  assumes "\<forall>r\<in>set xs. Signal r = 0" "holdings s = 0" "prev_portfolio_value s = cash s"
    "positions s = [] \<or> last (positions s) = 0"
  shows "run_loop f s xs =
     Inr (s\<lparr>portfolio_values := portfolio_values s @ replicate (length xs) (cash s),
            positions := positions s @ replicate (length xs) 0,
            trades := trades s @ replicate (length xs) 0,
            daily_returns := daily_returns s @ replicate (length xs) 0\<rparr>)"
  using assms
proof (induction xs arbitrary: s)
  case Nil
  then show ?case by simp
next
  case (Cons r xs)
  let ?s1 = "s\<lparr>portfolio_values := portfolio_values s @ [cash s],
            positions := positions s @ [0],
            trades := trades s @ [0],
            daily_returns := daily_returns s @ [0]\<rparr>"
  have "step f s r = Inr ?s1"
    using step_hold [of r s f] Cons.prems by auto
  moreover have "run_loop f ?s1 xs =
     Inr (?s1\<lparr>portfolio_values := portfolio_values ?s1 @ replicate (length xs) (cash ?s1),
            positions := positions ?s1 @ replicate (length xs) 0,
            trades := trades ?s1 @ replicate (length xs) 0,
            daily_returns := daily_returns ?s1 @ replicate (length xs) 0\<rparr>)"
    using Cons.prems by (intro Cons.IH) simp_all
  ultimately show ?case by (simp add: replicate_app_Cons_same)
qed

lemma frame_hold:
  "length closes = n \<Longrightarrow> \<forall>r\<in>set (frame closes (replicate n 0)). Signal r = 0"
  by (auto simp: frame_def dest!: set_zip_rightD)

lemma length_frame: "length (frame closes (replicate (length closes) 0)) = length closes"
  by (simp add: frame_def)

lemma backtest_strategy_hold:
  "backtest_strategy (frame closes (replicate (length closes) 0)) ic fee =
     Inr \<lparr>Data = frame closes (replicate (length closes) 0),
          Portfolio_Value = replicate (length closes) ic, Total_Fees = 0,
          Positions = replicate (length closes) 0, Trades = replicate (length closes) 0,
          Strategy_Daily_Return = replicate (length closes) 0\<rparr>"
proof -
  have "run_loop fee (initial_ledger ic) (frame closes (replicate (length closes) 0)) =
     Inr ((initial_ledger ic)\<lparr>portfolio_values := replicate (length closes) ic,
            positions := replicate (length closes) 0,
            trades := replicate (length closes) 0,
            daily_returns := replicate (length closes) 0\<rparr>)"
    using run_loop_hold [of "frame closes (replicate (length closes) 0)" "initial_ledger ic" fee]
      frame_hold [of closes "length closes"]
    by (simp add: initial_ledger_def length_frame)
  then show ?thesis
    by (simp add: backtest_strategy_def length_frame initial_ledger_def)
qed

lemma foldl_np_max_same: "foldl np_max x (replicate k x) = x"
  by (induction k) (simp_all add: np_max_def)

lemma foldl_np_min_same: "foldl np_min x (replicate k x) = x"
  by (induction k) (simp_all add: np_min_def)

lemma series_max_same: "x \<noteq> NaN \<Longrightarrow> 0 < k \<Longrightarrow> series_max (replicate k x) = x"
  by (cases k) (simp_all add: series_max_def dropna_def foldl_np_max_same)

lemma series_min_same: "x \<noteq> NaN \<Longrightarrow> 0 < k \<Longrightarrow> series_min (replicate k x) = x"
  by (cases k) (simp_all add: series_min_def dropna_def foldl_np_min_same)

lemma expanding_max_same:
  assumes "x \<noteq> NaN"
  shows "expanding_max (replicate n x) = replicate n x"
proof (intro nth_equalityI)
  show "length (expanding_max (replicate n x)) = length (replicate n x)"
    by (simp add: expanding_max_def)
next
  fix t assume "t < length (expanding_max (replicate n x))"
  then have t: "t < n" by (simp add: expanding_max_def)
  then have "take (Suc t) (replicate n x) = replicate (Suc t) x" by (simp add: min_def)
  then show "expanding_max (replicate n x) ! t = replicate n x ! t"
    using t series_max_same [OF assms, of "Suc t"] by (simp add: expanding_max_def)
qed

lemma drawdown_same:
  assumes "v \<noteq> 0"
  shows "drawdown (replicate n (Num v)) = replicate n (Num 0)"
  using assms
  by (simp add: drawdown_def expanding_max_same zip_replicate np_sub_def)

lemma metrics_hold:
  assumes "0 < n" "ic \<noteq> 0" "Data res \<noteq> []" "Portfolio_Value res = replicate n ic"
  shows "\<exists>m. calculate_performance_metrics res ic = Inr m
           \<and> total_return m = Num 0 \<and> max_drawdown m = Num 0"
proof -
  have pv: "Portfolio_Value res \<noteq> []" using assms(1,4) by simp
  from metrics_total [OF pv assms(3), of ic] obtain m where
    m: "calculate_performance_metrics res ic = Inr m"
    "total_return m = np_sub (np_div (Num (last (Portfolio_Value res))) (Num ic)) (Num 1)"
    "max_drawdown m = series_min (drawdown (map Num (Portfolio_Value res)))"
    by blast
  have "last (Portfolio_Value res) = ic" using assms(1,4) by simp
  then have "total_return m = Num 0" using assms(2) by (simp add: m(2) np_sub_def)
  moreover have "max_drawdown m = Num 0"
    using assms(1,2) by (simp add: m(3) assms(4) drawdown_same series_min_same)
  ultimately show ?thesis using m(1) by blast
qed

text \<open>
  C5. On a non-empty series of equal closes, with thresholds \<open>0 < os < ob < 100\<close>,
  positive capital, fee rate \<open>\<ge> 0\<close> and any period \<open>\<ge> 1\<close>: the indicator is 50 at every
  row, every signal is Hold, the simulation returns with the portfolio value equal to
  the initial capital at every row and no trade, and the analyzer returns a total return
  of 0 and a maximum drawdown of 0.
\<close>

theorem constant_prices_are_neutral:
  assumes "closes \<noteq> []" "\<forall>x\<in>set closes. x = c"
    and "0 < os" "os < ob" "ob < 100" "0 < ic" "0 \<le> fee" "1 \<le> period"
  shows "calculate_rsi closes period = Inr (replicate (length closes) (Num 50))
    \<and> generate_signals (replicate (length closes) (Num 50)) ob os = replicate (length closes) 0
    \<and> (\<exists>res m. simulate closes period ob os ic fee = Inr res
          \<and> Portfolio_Value res = replicate (length closes) ic
          \<and> Trades res = replicate (length closes) 0
          \<and> calculate_performance_metrics res ic = Inr m
          \<and> total_return m = Num 0 \<and> max_drawdown m = Num 0)"
proof -
  let ?n = "length closes"
  let ?res = "\<lparr>Data = frame closes (replicate ?n 0),
          Portfolio_Value = replicate ?n ic, Total_Fees = 0,
          Positions = replicate ?n 0, Trades = replicate ?n 0,
          Strategy_Daily_Return = replicate ?n 0\<rparr>"
  have rsi: "calculate_rsi closes period = Inr (replicate ?n (Num 50))"
    using assms(2,8) by (rule calculate_rsi_constant)
  have sig: "generate_signals (replicate ?n (Num 50)) ob os = replicate ?n 0"
    by (rule generate_signals_neutral)
  have sim: "simulate closes period ob os ic fee = Inr ?res"
    by (simp add: simulate_def rsi sig backtest_strategy_hold)
  have "Data ?res \<noteq> []"
    using assms(1) length_frame [of closes] by (cases "frame closes (replicate ?n 0)") auto
  then obtain m where "calculate_performance_metrics ?res ic = Inr m"
    "total_return m = Num 0" "max_drawdown m = Num 0"
    using metrics_hold [of ?n ic ?res] assms(1,6) by auto
  with rsi sig sim show ?thesis by auto
qed

theorem constant_prices_are_neutral_witness:
  "calculate_rsi [100, 100, 100] 14 = Inr [Num 50, Num 50, Num 50]
   \<and> generate_signals [Num 50, Num 50, Num 50] 70 30 = [0, 0, 0]
   \<and> (\<exists>res m. simulate [100, 100, 100] 14 70 30 1000 (1 / 100) = Inr res
          \<and> Portfolio_Value res = [1000, 1000, 1000]
          \<and> Trades res = [0, 0, 0]
          \<and> calculate_performance_metrics res 1000 = Inr m
          \<and> total_return m = Num 0 \<and> max_drawdown m = Num 0)"
  using constant_prices_are_neutral [of "[100, 100, 100]" 100 30 70 1000 "1 / 100" 14]
  by (auto simp: numeral_3_eq_3)

end
